theory Spec2Isabelle
  imports Main
begin

section \<open>JavaScript values that cross the sheet, the server and the client\<close>

text \<open>
  The Sheets API hands back \<^verbatim>\<open>values: any[][]\<close>. The server functions are plain
  JavaScript and compare cells with \<^verbatim>\<open>===\<close>, so a cell is kept as the JS value it is:
  a string, a boolean, or \<^verbatim>\<open>undefined\<close> (what an index beyond the end of a row reads).
  The TypeScript annotations of the client (\<^verbatim>\<open>name: string\<close>, \<^verbatim>\<open>dates: string[]\<close>) are
  erased at run time and the client never checks them, so names and date keys stay
  \<open>jsval\<close> on the client as well.
\<close>

datatype jsval = JUndefined | JBool bool | JStr string

text \<open>\<^verbatim>\<open>xs[i]\<close>: reading past the end of an array yields \<^verbatim>\<open>undefined\<close>.\<close>

definition js_index :: "jsval list \<Rightarrow> nat \<Rightarrow> jsval" where
  "js_index xs i = (if i < length xs then xs ! i else JUndefined)"

text \<open>Property-key coercion, as in \<^verbatim>\<open>obj[key]\<close>.\<close>

fun to_key :: "jsval \<Rightarrow> string" where
  "to_key JUndefined = ''undefined''"
| "to_key (JBool True) = ''true''"
| "to_key (JBool False) = ''false''"
| "to_key (JStr s) = s"

text \<open>Truthiness, as in \<^verbatim>\<open>if (v)\<close> and \<^verbatim>\<open>!v\<close>.\<close>

fun truthy :: "jsval \<Rightarrow> bool" where
  "truthy JUndefined = False"
| "truthy (JBool b) = b"
| "truthy (JStr s) = (s \<noteq> [])"

text \<open>
  What reading a property of an attendance object can yield, and so what the field
  \<^verbatim>\<open>present\<close> of a view entry can hold at run time: a boolean, \<^verbatim>\<open>undefined\<close>, or
  something inherited from \<^verbatim>\<open>Object.prototype\<close>, namely that object itself (under the key
  \<^verbatim>\<open>__proto__\<close>) or one of its built-in functions.
\<close>

datatype propval = PBool bool | PUndefined | PObject | PFunction string

fun truthy_prop :: "propval \<Rightarrow> bool" where
  "truthy_prop (PBool b) = b"
| "truthy_prop PUndefined = False"
| "truthy_prop PObject = True"
| "truthy_prop (PFunction f) = True"

text \<open>The function-valued properties of \<^verbatim>\<open>Object.prototype\<close>.\<close>

definition prototype_functions :: "string list" where
  "prototype_functions =
     [''constructor'', ''__defineGetter__'', ''__defineSetter__'', ''hasOwnProperty'',
      ''__lookupGetter__'', ''__lookupSetter__'', ''isPrototypeOf'', ''propertyIsEnumerable'',
      ''toString'', ''valueOf'', ''toLocaleString'']"

text \<open>
  An attendance object is a plain object, \<^verbatim>\<open>{}\<close> on the server and the result of
  \<^verbatim>\<open>response.json()\<close> on the client; the map holds its own properties. \<^verbatim>\<open>obj[key]\<close>
  reads the own property when there is one and otherwise what \<^verbatim>\<open>Object.prototype\<close> has
  under that key. \<^verbatim>\<open>obj[key] = b\<close> with a boolean \<open>b\<close> writes an own property, except for
  the key \<^verbatim>\<open>__proto__\<close> on an object without such an own property: there the inherited
  setter runs, and it ignores a value that is not an object.
\<close>

definition obj_get :: "(string \<rightharpoonup> bool) \<Rightarrow> string \<Rightarrow> propval" where
  "obj_get obj key =
     (case obj key of
        Some b \<Rightarrow> PBool b
      | None \<Rightarrow>
          if key = ''__proto__'' then PObject
          else if key \<in> set prototype_functions then PFunction key
          else PUndefined)"

definition obj_set :: "(string \<rightharpoonup> bool) \<Rightarrow> string \<Rightarrow> bool \<Rightarrow> (string \<rightharpoonup> bool)" where
  "obj_set obj key b =
     (if key = ''__proto__'' \<and> obj key = None then obj else obj(key \<mapsto> b))"

text \<open>\<^verbatim>\<open>Array.prototype.findIndex\<close>; \<open>None\<close> stands for the result \<^verbatim>\<open>-1\<close>.\<close>

fun findIndex :: "('a \<Rightarrow> bool) \<Rightarrow> 'a list \<Rightarrow> nat option" where
  "findIndex P [] = None"
| "findIndex P (x # xs) =
     (if P x then Some 0 else map_option Suc (findIndex P xs))"

section \<open>The authorization gate (auth-config.ts, UserManagement.tsx)\<close>

text \<open>
  \<^verbatim>\<open>String.prototype.toLowerCase\<close> on the ASCII letters; characters are bytes here, so
  letters beyond ASCII are left as they are, and the model speaks for ASCII text only.
\<close>

definition ascii :: "string \<Rightarrow> bool" where
  "ascii s = list_all (\<lambda>c. (of_char c :: nat) < 128) s"

definition lower_char :: "char \<Rightarrow> char" where
  "lower_char c =
     (if 65 \<le> (of_char c :: nat) \<and> (of_char c :: nat) \<le> 90
      then char_of ((of_char c :: nat) + 32) else c)"

definition toLowerCase :: "string \<Rightarrow> string" where
  "toLowerCase s = map lower_char s"

text \<open>
  The collection \<^verbatim>\<open>authorized_users\<close>, in the order a query returns its documents, and
  whether the next read (\<^verbatim>\<open>getDocs\<close>) or write (\<^verbatim>\<open>deleteDoc\<close>) rejects.
\<close>

record user_doc =
  doc_id :: string
  email :: string
  addedBy :: string
  addedAt :: int

record firestore =
  docs :: "user_doc list"
  read_throws :: bool
  write_throws :: bool

text \<open>The module-level variables \<^verbatim>\<open>cachedAuthorizedEmails\<close> and \<^verbatim>\<open>lastFetchTime\<close>.\<close>

record auth_cache =
  cachedAuthorizedEmails :: "string list"
  lastFetchTime :: int

definition CACHE_DURATION :: int where
  "CACHE_DURATION = 1000 * 60 * 10"

text \<open>\<^verbatim>\<open>getAuthorizedEmails\<close>; \<open>now\<close> is \<^verbatim>\<open>Date.now()\<close>.\<close>

definition getAuthorizedEmails ::
  "int \<Rightarrow> firestore \<Rightarrow> auth_cache \<Rightarrow> string list \<times> auth_cache" where
  "getAuthorizedEmails now db cache =
     (if cachedAuthorizedEmails cache \<noteq> [] \<and> now - lastFetchTime cache < CACHE_DURATION
      then (cachedAuthorizedEmails cache, cache)
      else if read_throws db then ([], cache)
      else
        let emails = map (\<lambda>d. toLowerCase (email d)) (docs db)
        in (emails, \<lparr>cachedAuthorizedEmails = emails, lastFetchTime = now\<rparr>))"

text \<open>
  \<^verbatim>\<open>removeAuthorizedEmail\<close>: the query \<^verbatim>\<open>where("email", "==", email.toLowerCase())\<close>,
  then \<^verbatim>\<open>deleteDoc\<close> of the first hit by its id; every exception is caught and turned
  into \<^verbatim>\<open>false\<close>.
\<close>

definition removeAuthorizedEmail ::
  "string \<Rightarrow> firestore \<Rightarrow> auth_cache \<Rightarrow> bool \<times> firestore \<times> auth_cache" where
  "removeAuthorizedEmail e db cache =
     (if read_throws db then (False, db, cache)
      else case filter (\<lambda>d. email d = toLowerCase e) (docs db) of
             [] \<Rightarrow> (False, db, cache)
           | hit # others \<Rightarrow>
               if write_throws db then (False, db, cache)
               else (True,
                     db\<lparr>docs := filter (\<lambda>d. doc_id d \<noteq> doc_id hit) (docs db)\<rparr>,
                     \<lparr>cachedAuthorizedEmails = [], lastFetchTime = 0\<rparr>))"

text \<open>
  The \<^verbatim>\<open>useState\<close> cells of the \<^verbatim>\<open>UserManagement\<close> component that loading and
  removing touch (the cells of the add form are left out).
\<close>

record um_state =
  authorizedEmails :: "string list"
  loading :: bool
  error :: "string option"
  isRemoving :: "string option"
  removeSuccess :: bool

text \<open>\<^verbatim>\<open>loadAuthorizedEmails\<close>; \<^verbatim>\<open>getAuthorizedEmails\<close> never throws.\<close>

definition loadAuthorizedEmails ::
  "int \<Rightarrow> firestore \<Rightarrow> auth_cache \<Rightarrow> um_state \<Rightarrow> um_state \<times> auth_cache" where
  "loadAuthorizedEmails now db cache st =
     (case getAuthorizedEmails now db cache of
        (emails, cache1) \<Rightarrow>
          (st\<lparr>error := None, authorizedEmails := emails, loading := False\<rparr>, cache1))"

text \<open>
  \<^verbatim>\<open>handleRemoveEmail(email)\<close> of a component rendered for \<open>currentUserEmail\<close>, up to
  the point where the reload it starts has finished.
\<close>

definition handleRemoveEmail ::
  "string \<Rightarrow> string \<Rightarrow> int \<Rightarrow> firestore \<Rightarrow> auth_cache \<Rightarrow> um_state
     \<Rightarrow> um_state \<times> firestore \<times> auth_cache" where
  "handleRemoveEmail currentUserEmail e now db cache st =
     (if e = currentUserEmail then
        (st\<lparr>error := Some ''You cannot remove your own email from the authorized list.''\<rparr>,
         db, cache)
      else
        let st0 = st\<lparr>isRemoving := Some e, error := None, removeSuccess := False\<rparr>
        in case removeAuthorizedEmail e db cache of
             (success, db1, cache1) \<Rightarrow>
               if success then
                 (case loadAuthorizedEmails now db1 cache1 (st0\<lparr>removeSuccess := True\<rparr>) of
                    (st1, cache2) \<Rightarrow> (st1\<lparr>isRemoving := None\<rparr>, db1, cache2))
               else
                 (st0\<lparr>error := Some (''Failed to remove '' @ e @ ''. Please try again.''),
                      isRemoving := None\<rparr>, db1, cache1))"

section \<open>The client view model (App.tsx)\<close>

text \<open>
  \<^verbatim>\<open>interface AttendanceData { name; attendance: {[date: string]: boolean} }\<close> and
  \<^verbatim>\<open>interface AttendanceRecord { name; present: boolean }\<close>. The attendance object is
  given by its own properties; \<open>present\<close> is annotated as a boolean, but holds whatever
  the property read delivered.
\<close>

record AttendanceData =
  name :: jsval
  attendance :: "string \<rightharpoonup> bool"

record AttendanceRecord =
  name :: jsval
  present :: propval

text \<open>The message carried by the error that \<^verbatim>\<open>fetchAttendanceData\<close> catches.\<close>

datatype fetch_failure =
    AuthConfigRequired
  | HttpError nat
  | InvalidFormat
  | OtherFailure string

text \<open>The \<^verbatim>\<open>useState\<close> cells of \<^verbatim>\<open>App\<close> that the data logic reads or writes.\<close>

record app_state =
  attendanceRecords :: "AttendanceRecord list"
  loading :: bool
  saving :: bool
  error :: "fetch_failure option"
  saveError :: "fetch_failure option"
  saveSuccess :: bool
  availableDates :: "jsval list"
  selectedDate :: jsval
  fullAttendanceData :: "AttendanceData list"
  authRequired :: bool

text \<open>
  \<^verbatim>\<open>item.attendance[date] || false\<close>: a truthy value is passed on as it is, anything
  else becomes \<^verbatim>\<open>false\<close>.
\<close>

definition attendance_or_false :: "AttendanceData \<Rightarrow> jsval \<Rightarrow> propval" where
  "attendance_or_false item date =
     (let v = obj_get (attendance item) (to_key date)
      in if truthy_prop v then v else PBool False)"

definition updateAttendanceRecordsForDate ::
  "jsval \<Rightarrow> AttendanceData list \<Rightarrow> app_state \<Rightarrow> app_state" where
  "updateAttendanceRecordsForDate date data s =
     s\<lparr>attendanceRecords :=
         map (\<lambda>item. \<lparr>name = AttendanceData.name item,
                       present = attendance_or_false item date\<rparr>) data\<rparr>"

text \<open>
  \<^verbatim>\<open>handleDateChange(date: string)\<close> is called with the value of the chosen
  \<^verbatim>\<open><option>\<close>, which the DOM delivers as a string.
\<close>

definition handleDateChange :: "string \<Rightarrow> app_state \<Rightarrow> app_state" where
  "handleDateChange date s =
     updateAttendanceRecordsForDate (JStr date) (fullAttendanceData s)
       (s\<lparr>selectedDate := JStr date\<rparr>)"

text \<open>
  \<^verbatim>\<open>handleAttendanceChange(index, checked)\<close>. The arrays are copied shallowly and the
  object at \<open>index\<close> is mutated; every entry of the view is a fresh object made by
  \<^verbatim>\<open>map\<close> and every entry of the matrix comes from \<^verbatim>\<open>response.json()\<close>, so no two
  entries share an object and the mutation is a point update. An index beyond the view
  makes \<^verbatim>\<open>updatedRecords[index].present = checked\<close> throw a TypeError before anything
  is stored. The index comes from \<^verbatim>\<open>attendanceRecords.map((record, index) => ...)\<close>, a
  natural number.
\<close>

datatype js_exception = TypeError | ApiError


text \<open>A state used to run the theorems on: the scenario of the specification.\<close>

definition smith_state :: app_state where
  "smith_state =
     \<lparr>attendanceRecords = [\<lparr>name = JStr ''Smith, Jane'', present = PBool False\<rparr>],
      loading = False, saving = False, error = None, saveError = None,
      saveSuccess = False,
      availableDates = [JStr ''7/20/2025'', JStr ''7/13/2025''],
      selectedDate = JStr ''7/20/2025'',
      fullAttendanceData =
        [\<lparr>AttendanceData.name = JStr ''Smith, Jane'',
          attendance = [''7/20/2025'' \<mapsto> False]\<rparr>],
      authRequired = False\<rparr>"

section \<open>The spreadsheet adapter (Cloud Functions, index.js)\<close>

text \<open>
  What the server sees of its surroundings. \<open>sheet\<close> is \<^verbatim>\<open>response.data.values\<close> of
  the range \<^verbatim>\<open>Attendance!A1:Z\<close>: a list of rows, \<open>[]\<close> also when the field is missing.
  The two flags say whether the API calls reject; \<open>batches\<close> records every
  \<^verbatim>\<open>batchUpdate\<close> call that was issued.
\<close>

record cell_write =
  column_code :: nat
  row_number :: nat
  written :: propval

record sheets_env =
  key_file_exists :: bool
  sheet_id :: jsval
  get_throws :: bool
  batch_throws :: bool
  sheet :: "jsval list list"
  batches :: "cell_write list list"

record attendance_payload =
  dates :: "jsval list"
  attendanceData :: "AttendanceData list"

text \<open>\<^verbatim>\<open>value === "TRUE" || value === "true" || value === true\<close>\<close>

definition cell_is_true :: "jsval \<Rightarrow> bool" where
  "cell_is_true v = (v = JStr ''TRUE'' \<or> v = JStr ''true'' \<or> v = JBool True)"

text \<open>
  \<^verbatim>\<open>dates.forEach((date, index) => { attendance[date] = ... row[index + 1] ... })\<close>,
  started at \<open>index = 0\<close> on the empty object.
\<close>

fun forEach_date ::
  "jsval list \<Rightarrow> nat \<Rightarrow> jsval list \<Rightarrow> (string \<rightharpoonup> bool) \<Rightarrow> (string \<rightharpoonup> bool)" where
  "forEach_date row index [] acc = acc"
| "forEach_date row index (date # rest) acc =
     forEach_date row (Suc index) rest
       (obj_set acc (to_key date) (cell_is_true (js_index row (index + 1))))"

definition row_to_data :: "jsval list \<Rightarrow> jsval list \<Rightarrow> AttendanceData" where
  "row_to_data ds row =
     \<lparr>AttendanceData.name = js_index row 0,
      attendance = forEach_date row 0 ds Map.empty\<rparr>"

text \<open>
  \<^verbatim>\<open>getAttendanceDataFromSheet\<close>. Without the key file \<^verbatim>\<open>getGoogleSheetsClient\<close>
  returns \<^verbatim>\<open>null\<close> and \<^verbatim>\<open>sheets.spreadsheets\<close> throws; the \<^verbatim>\<open>catch\<close> rethrows.
\<close>

definition getAttendanceDataFromSheet :: "sheets_env \<Rightarrow> js_exception + attendance_payload" where
  "getAttendanceDataFromSheet env =
     (if \<not> key_file_exists env then Inl TypeError
      else if get_throws env then Inl ApiError
      else case sheet env of
             [] \<Rightarrow> Inr \<lparr>dates = [], attendanceData = []\<rparr>
           | headerRow # rows \<Rightarrow>
               Inr \<lparr>dates = drop 1 headerRow,
                    attendanceData = map (row_to_data (drop 1 headerRow)) rows\<rparr>)"

text \<open>The body of an HTTP answer, as far as the client looks at it.\<close>

datatype get_body = DataBody attendance_payload | OtherBody

datatype 'b http_outcome = Rejected string | Response nat 'b

definition getAttendanceData :: "sheets_env \<Rightarrow> nat \<times> get_body" where
  "getAttendanceData env =
     (case getAttendanceDataFromSheet env of
        Inr data \<Rightarrow> (200, DataBody \<lparr>dates = dates data, attendanceData = attendanceData data\<rparr>)
      | Inl e \<Rightarrow> (500, OtherBody))"

text \<open>The console lines of \<^verbatim>\<open>updateAttendanceInSheet\<close>.\<close>

datatype console_msg =
    ErrNoClient
  | ErrMissingSheetId
  | ErrNoData
  | ErrDateNotFound jsval
  | WarnNameNotFound jsval
  | LogUpdated nat jsval
  | WarnNoValidRecords
  | ErrUpdating

text \<open>
  The loop \<^verbatim>\<open>for (const record of attendanceData)\<close> (the argument is called
  \<open>records\<close> below): the row is searched in all of
  \<^verbatim>\<open>currentData.data.values\<close>; a record without a row is skipped with a warning.
\<close>

definition find_row :: "jsval list list \<Rightarrow> jsval \<Rightarrow> nat option" where
  "find_row tbl nm = findIndex (\<lambda>row. js_index row 0 = nm) tbl"

fun batchUpdateData :: "jsval list list \<Rightarrow> nat \<Rightarrow> AttendanceRecord list \<Rightarrow> cell_write list" where
  "batchUpdateData tbl col [] = []"
| "batchUpdateData tbl col (record # rest) =
     (case find_row tbl (AttendanceRecord.name record) of
        None \<Rightarrow> batchUpdateData tbl col rest
      | Some rowIndex \<Rightarrow>
          \<lparr>column_code = col, row_number = rowIndex + 1, written = present record\<rparr>
            # batchUpdateData tbl col rest)"

fun name_warnings :: "jsval list list \<Rightarrow> AttendanceRecord list \<Rightarrow> console_msg list" where
  "name_warnings tbl [] = []"
| "name_warnings tbl (record # rest) =
     (case find_row tbl (AttendanceRecord.name record) of
        None \<Rightarrow> WarnNameNotFound (AttendanceRecord.name record) # name_warnings tbl rest
      | Some rowIndex \<Rightarrow> name_warnings tbl rest)"

text \<open>
  Modelled from the Sheets API, which is not part of the repository: a range
  \<^verbatim>\<open>Attendance!<letter><row>\<close> addresses column \<open>code - 65\<close> for the letters A to Z and
  the row \<open>row - 1\<close> of the value table; anything else is not a range and the whole batch
  is refused. A write beyond the end of a row fills the gap with empty cells, which read
  as empty strings. The writes of one batch are applied in order. A boolean is stored in
  the cell; \<^verbatim>\<open>undefined\<close> and a function travel as \<^verbatim>\<open>null\<close>, which leaves the cell
  alone; an object is no cell value and the whole batch is refused.
\<close>

definition a1_column :: "nat \<Rightarrow> nat option" where
  "a1_column code = (if 65 \<le> code \<and> code \<le> 90 then Some (code - 65) else None)"

definition set_cell :: "jsval list list \<Rightarrow> nat \<Rightarrow> nat \<Rightarrow> jsval \<Rightarrow> jsval list list" where
  "set_cell tbl r c v =
     (let tbl1 = tbl @ replicate (Suc r - length tbl) [];
          row = tbl1 ! r;
          row1 = row @ replicate (Suc c - length row) (JStr [])
      in tbl1[r := row1[c := v]])"

fun apply_batch :: "cell_write list \<Rightarrow> jsval list list \<Rightarrow> jsval list list option" where
  "apply_batch [] tbl = Some tbl"
| "apply_batch (w # ws) tbl =
     (case a1_column (column_code w) of
        None \<Rightarrow> None
      | Some c \<Rightarrow>
          if row_number w = 0 then None
          else (case written w of
                  PBool b \<Rightarrow> apply_batch ws (set_cell tbl (row_number w - 1) c (JBool b))
                | PObject \<Rightarrow> None
                | PUndefined \<Rightarrow> apply_batch ws tbl
                | PFunction f \<Rightarrow> apply_batch ws tbl))"

record update_result =
  updated :: bool
  console :: "console_msg list"
  env_after :: sheets_env

definition updateAttendanceInSheet ::
  "sheets_env \<Rightarrow> jsval \<Rightarrow> AttendanceRecord list \<Rightarrow> update_result" where
  "updateAttendanceInSheet env date records =
     (if \<not> key_file_exists env then
        \<lparr>updated = False, console = [ErrNoClient], env_after = env\<rparr>
      else if \<not> truthy (sheet_id env) then
        \<lparr>updated = False, console = [ErrMissingSheetId], env_after = env\<rparr>
      else if get_throws env then
        \<lparr>updated = False, console = [ErrUpdating], env_after = env\<rparr>
      else case sheet env of
        [] \<Rightarrow> \<lparr>updated = False, console = [ErrNoData], env_after = env\<rparr>
      | headerRow # rows \<Rightarrow>
          (case findIndex (\<lambda>header. header = date) headerRow of
             None \<Rightarrow> \<lparr>updated = False, console = [ErrDateNotFound date], env_after = env\<rparr>
           | Some dateColumnIndex \<Rightarrow>
               let batch = batchUpdateData (sheet env) (65 + dateColumnIndex) records;
                   warnings = name_warnings (sheet env) records
               in if batch \<noteq> [] then
                    let env1 = env\<lparr>batches := batches env @ [batch]\<rparr>
                    in (case (if batch_throws env then None
                              else apply_batch batch (sheet env)) of
                          None \<Rightarrow>
                            \<lparr>updated = False, console = warnings @ [ErrUpdating],
                             env_after = env1\<rparr>
                        | Some sheet1 \<Rightarrow>
                            \<lparr>updated = True,
                             console = warnings @ [LogUpdated (length batch) date],
                             env_after = env1\<lparr>sheet := sheet1\<rparr>\<rparr>)
                  else \<lparr>updated = False, console = warnings @ [WarnNoValidRecords],
                        env_after = env\<rparr>))"

text \<open>
  \<^verbatim>\<open>exports.updateAttendance\<close>: \<open>date\<close> and \<open>attendance\<close> are the two fields of the
  request body (\<open>JUndefined\<close> and \<open>None\<close> when missing). The result is the HTTP status.
\<close>

definition updateAttendance ::
  "sheets_env \<Rightarrow> jsval \<Rightarrow> AttendanceRecord list option \<Rightarrow> nat \<times> sheets_env" where
  "updateAttendance env date att =
     (case att of
        None \<Rightarrow> (400, env)
      | Some records \<Rightarrow>
          if \<not> truthy date then (400, env)
          else let r = updateAttendanceInSheet env date records
               in (if updated r then 200 else 500, env_after r))"

section \<open>Loading and saving from the client (App.tsx)\<close>

definition response_ok :: "nat \<Rightarrow> bool" where
  "response_ok status = (200 \<le> status \<and> status \<le> 299)"

text \<open>
  \<^verbatim>\<open>fetchAttendanceData\<close>, given what \<^verbatim>\<open>fetch(dataUrl)\<close> came back with. Every
  \<^verbatim>\<open>throw\<close> lands in the \<^verbatim>\<open>catch\<close>, which only sets \<open>error\<close>; \<^verbatim>\<open>finally\<close> clears
  \<open>loading\<close>.
\<close>

definition fetchAttendanceData :: "get_body http_outcome \<Rightarrow> app_state \<Rightarrow> app_state" where
  "fetchAttendanceData outcome s =
     (let s0 = s\<lparr>loading := True, error := None, saveSuccess := False, saveError := None\<rparr>
      in case outcome of
           Rejected msg \<Rightarrow> s0\<lparr>error := Some (OtherFailure msg), loading := False\<rparr>
         | Response status body \<Rightarrow>
             if \<not> response_ok status then
               (if status = 403 then
                  s0\<lparr>authRequired := True, error := Some AuthConfigRequired, loading := False\<rparr>
                else s0\<lparr>error := Some (HttpError status), loading := False\<rparr>)
             else (case body of
                     OtherBody \<Rightarrow> s0\<lparr>error := Some InvalidFormat, loading := False\<rparr>
                   | DataBody data \<Rightarrow>
                       let s1 = s0\<lparr>fullAttendanceData := attendanceData data,
                                   availableDates := dates data\<rparr>;
                           s2 = (case dates data of
                                   [] \<Rightarrow> s1
                                 | initialDate # others \<Rightarrow>
                                     updateAttendanceRecordsForDate initialDate
                                       (attendanceData data)
                                       (s1\<lparr>selectedDate := initialDate\<rparr>))
                       in s2\<lparr>loading := False\<rparr>))"

definition saveAttendanceData :: "unit http_outcome \<Rightarrow> app_state \<Rightarrow> app_state" where
  "saveAttendanceData outcome s =
     (let s0 = s\<lparr>saving := True, saveSuccess := False, saveError := None\<rparr>
      in case outcome of
           Rejected msg \<Rightarrow> s0\<lparr>saveError := Some (OtherFailure msg), saving := False\<rparr>
         | Response status body \<Rightarrow>
             if \<not> response_ok status then
               s0\<lparr>saveError := Some (HttpError status), saving := False\<rparr>
             else s0\<lparr>saveSuccess := True, saving := False\<rparr>)"

text \<open>
  The wiring of the two sides: \<^verbatim>\<open>fetch(dataUrl)\<close> reaches \<^verbatim>\<open>getAttendanceData\<close>, and
  \<^verbatim>\<open>fetch(updateUrl, {body: {date: selectedDate, attendance: attendanceRecords}})\<close>
  reaches \<^verbatim>\<open>updateAttendance\<close>. The body travels through \<^verbatim>\<open>JSON.stringify\<close>, which
  drops a property whose value is a function and writes \<^verbatim>\<open>Object.prototype\<close> as the
  empty object.
\<close>

fun json_present :: "propval \<Rightarrow> propval" where
  "json_present (PFunction f) = PUndefined"
| "json_present v = v"

definition loadAll :: "sheets_env \<Rightarrow> app_state \<Rightarrow> app_state" where
  "loadAll env s =
     (case getAttendanceData env of (status, body) \<Rightarrow>
        fetchAttendanceData (Response status body) s)"

definition save :: "sheets_env \<Rightarrow> app_state \<Rightarrow> app_state \<times> sheets_env" where
  "save env s =
     (case updateAttendance env (selectedDate s)
             (Some (map (\<lambda>r. r\<lparr>present := json_present (present r)\<rparr>)
                (attendanceRecords s))) of
        (status, env1) \<Rightarrow> (saveAttendanceData (Response status ()) s, env1))"

text \<open>The state of \<^verbatim>\<open>App\<close> before the first load.\<close>

definition initial_state :: app_state where
  "initial_state =
     \<lparr>attendanceRecords = [], loading = True, saving = False, error = None,
      saveError = None, saveSuccess = False, availableDates = [],
      selectedDate = JStr [], fullAttendanceData = [], authRequired = False\<rparr>"

definition env_of :: "jsval list list \<Rightarrow> sheets_env" where
  "env_of tbl =
     \<lparr>key_file_exists = True, sheet_id = JStr ''sheet-1'', get_throws = False,
      batch_throws = False, sheet = tbl, batches = []\<rparr>"

section \<open>Date display (App.tsx)\<close>

text \<open>
  \<^verbatim>\<open>formatDateForDisplay\<close> calls \<^verbatim>\<open>parse(dateString, "M/d/yyyy", new Date())\<close> and
  \<^verbatim>\<open>format(date, "MMMM d, yyyy")\<close> of the library date-fns, which is not part of the
  repository; the two calls are parameters. A \<^verbatim>\<open>Date\<close> is a calendar day or the
  Invalid Date. Whatever either call throws is caught and the input is returned.
\<close>

datatype js_date = InvalidDate | ValidDate nat nat nat

datatype range_error = RangeError

definition formatDateForDisplay ::
  "(string \<Rightarrow> range_error + js_date) \<Rightarrow> (js_date \<Rightarrow> range_error + string)
     \<Rightarrow> string \<Rightarrow> string" where
  "formatDateForDisplay parse format dateString =
     (case parse dateString of
        Inl e \<Rightarrow> dateString
      | Inr date \<Rightarrow>
          (case format date of
             Inl e \<Rightarrow> dateString
           | Inr shown \<Rightarrow> shown))"

text \<open>
  Modelled from the specification and the documentation of date-fns, which is not part of
  the repository: \<^verbatim>\<open>parse\<close> with the pattern \<^verbatim>\<open>M/d/yyyy\<close> reads a month of one or two
  digits, a slash, a day of one or two digits, a slash and a year of one to four digits,
  followed by nothing but white space; it never throws, and answers Invalid Date when the
  text does not have this shape or names no day of the calendar. \<^verbatim>\<open>format\<close> with the
  pattern \<^verbatim>\<open>MMMM d, yyyy\<close> throws a RangeError on Invalid Date and otherwise writes the
  English month name, the day, and the year on four digits.
\<close>

definition is_digit :: "char \<Rightarrow> bool" where
  "is_digit c = (48 \<le> (of_char c :: nat) \<and> (of_char c :: nat) \<le> 57)"

definition digit_val :: "char \<Rightarrow> nat" where
  "digit_val c = (of_char c :: nat) - 48"

definition is_space :: "char \<Rightarrow> bool" where
  "is_space c = ((of_char c :: nat) = 32 \<or> (9 \<le> (of_char c :: nat) \<and> (of_char c :: nat) \<le> 13))"

text \<open>The month token \<^verbatim>\<open>/^(1[0-2]|0?\d)/\<close>: the number read and the rest of the text.\<close>

fun month_token :: "string \<Rightarrow> (nat \<times> string) option" where
  "month_token (a # b # rest) =
     (if (a = CHR ''1'' \<and> b \<in> {CHR ''0'', CHR ''1'', CHR ''2''}) \<or> (a = CHR ''0'' \<and> is_digit b)
      then Some (10 * digit_val a + digit_val b, rest)
      else if is_digit a then Some (digit_val a, b # rest) else None)"
| "month_token [a] = (if is_digit a then Some (digit_val a, []) else None)"
| "month_token [] = None"

text \<open>The day token \<^verbatim>\<open>/^(3[0-1]|[0-2]?\d)/\<close>.\<close>

fun day_token :: "string \<Rightarrow> (nat \<times> string) option" where
  "day_token (a # b # rest) =
     (if (a = CHR ''3'' \<and> b \<in> {CHR ''0'', CHR ''1''})
         \<or> (a \<in> {CHR ''0'', CHR ''1'', CHR ''2''} \<and> is_digit b)
      then Some (10 * digit_val a + digit_val b, rest)
      else if is_digit a then Some (digit_val a, b # rest) else None)"
| "day_token [a] = (if is_digit a then Some (digit_val a, []) else None)"
| "day_token [] = None"

text \<open>The year token \<^verbatim>\<open>/^\d{1,4}/\<close>.\<close>

fun year_digits :: "nat \<Rightarrow> nat \<Rightarrow> string \<Rightarrow> nat \<times> string" where
  "year_digits 0 acc s = (acc, s)"
| "year_digits (Suc n) acc [] = (acc, [])"
| "year_digits (Suc n) acc (c # s) =
     (if is_digit c then year_digits n (10 * acc + digit_val c) s else (acc, c # s))"

definition year_token :: "string \<Rightarrow> (nat \<times> string) option" where
  "year_token s =
     (case s of [] \<Rightarrow> None
      | c # rest \<Rightarrow> if is_digit c then Some (year_digits 4 0 s) else None)"

definition slash :: "string \<Rightarrow> string option" where
  "slash s = (case s of [] \<Rightarrow> None | c # rest \<Rightarrow> if c = CHR ''/'' then Some rest else None)"

definition leap_year :: "nat \<Rightarrow> bool" where
  "leap_year y = (y mod 400 = 0 \<or> (y mod 4 = 0 \<and> y mod 100 \<noteq> 0))"

definition days_in_month :: "nat \<Rightarrow> nat \<Rightarrow> nat" where
  "days_in_month y m =
     (if m = 2 then (if leap_year y then 29 else 28)
      else if m \<in> {4, 6, 9, 11} then 30 else 31)"

definition parse_Mdyyyy :: "string \<Rightarrow> range_error + js_date" where
  "parse_Mdyyyy s =
     Inr (case month_token s of None \<Rightarrow> InvalidDate
          | Some (m, s1) \<Rightarrow>
          (case slash s1 of None \<Rightarrow> InvalidDate
           | Some s2 \<Rightarrow>
           (case day_token s2 of None \<Rightarrow> InvalidDate
            | Some (d, s3) \<Rightarrow>
            (case slash s3 of None \<Rightarrow> InvalidDate
             | Some s4 \<Rightarrow>
             (case year_token s4 of None \<Rightarrow> InvalidDate
              | Some (y, s5) \<Rightarrow>
                  if list_all is_space s5 \<and> 1 \<le> m \<and> m \<le> 12 \<and> 1 \<le> y
                     \<and> 1 \<le> d \<and> d \<le> days_in_month y m
                  then ValidDate y m d else InvalidDate)))))"

definition month_names :: "string list" where
  "month_names =
     [''January'', ''February'', ''March'', ''April'', ''May'', ''June'', ''July'',
      ''August'', ''September'', ''October'', ''November'', ''December'']"

definition digit_char :: "nat \<Rightarrow> char" where
  "digit_char n = char_of (48 + n mod 10)"

definition show_day :: "nat \<Rightarrow> string" where
  "show_day d = (if d < 10 then [digit_char d] else [digit_char (d div 10), digit_char d])"

definition show_year4 :: "nat \<Rightarrow> string" where
  "show_year4 y =
     [digit_char (y div 1000), digit_char (y div 100), digit_char (y div 10), digit_char y]"

definition long_form :: "nat \<Rightarrow> nat \<Rightarrow> nat \<Rightarrow> string" where
  "long_form y m d = month_names ! (m - 1) @ '' '' @ show_day d @ '', '' @ show_year4 y"

fun format_MMMMdyyyy :: "js_date \<Rightarrow> range_error + string" where
  "format_MMMMdyyyy InvalidDate = Inl RangeError"
| "format_MMMMdyyyy (ValidDate y m d) = Inr (long_form y m d)"

section \<open>Example data\<close>


definition stale_cache :: auth_cache where
  "stale_cache = \<lparr>cachedAuthorizedEmails = [''admin@example.com''], lastFetchTime = 0\<rparr>"

definition empty_cache :: auth_cache where
  "empty_cache = \<lparr>cachedAuthorizedEmails = [], lastFetchTime = 0\<rparr>"

definition unreachable_db :: firestore where
  "unreachable_db =
     \<lparr>docs = [\<lparr>doc_id = ''u1'', email = ''admin@example.com'', addedBy = ''setup'', addedAt = 0\<rparr>],
      read_throws = True, write_throws = False\<rparr>"

definition empty_db :: firestore where
  "empty_db = \<lparr>docs = [], read_throws = False, write_throws = False\<rparr>"

definition admin_db :: firestore where
  "admin_db =
     \<lparr>docs = [\<lparr>doc_id = ''u1'', email = ''admin@example.com'', addedBy = ''setup'', addedAt = 0\<rparr>,
              \<lparr>doc_id = ''u2'', email = ''helper@example.com'', addedBy = ''admin@example.com'',
               addedAt = 1\<rparr>],
      read_throws = False, write_throws = False\<rparr>"

definition failing_env :: sheets_env where
  "failing_env =
     \<lparr>key_file_exists = True, sheet_id = JStr ''sheet-1'', get_throws = True,
      batch_throws = False, sheet = [], batches = []\<rparr>"

definition label_sheet :: "jsval list list" where
  "label_sheet =
     [[JStr ''Name'', JStr ''7/20/2025''],
      [JStr ''Smith, Jane'', JStr ''TRUE'']]"

definition untidy_sheet :: "jsval list list" where
  "untidy_sheet =
     [[JStr ''Name'', JStr ''7/20/2025''],
      [JStr ''Smith, Jane'', JStr ''yes''],
      [JStr ''Doe, John'']]"

definition tidy_sheet :: "jsval list list" where
  "tidy_sheet =
     [[JStr ''Name'', JStr ''7/20/2025'', JStr ''7/13/2025''],
      [JStr ''Smith, Jane'', JBool True, JStr ''TRUE''],
      [JStr ''Doe, John'', JBool False]]"



definition idle_um_state :: um_state where
  "idle_um_state =
     \<lparr>authorizedEmails = [''admin@example.com'', ''helper@example.com''], loading = False,
      error = None, isRemoving = None, removeSuccess = False\<rparr>"

section \<open>Selecting a date\<close>

lemma obj_set_apply: "key \<noteq> ''__proto__'' \<Longrightarrow> obj_set obj key b = obj(key \<mapsto> b)"
  by (simp add: obj_set_def)

lemma obj_set_other: "k \<noteq> key \<Longrightarrow> obj_set obj key b k = obj k"
  by (simp add: obj_set_def)

lemma obj_get_own: "obj key = Some b \<Longrightarrow> obj_get obj key = PBool b"
  by (simp add: obj_get_def)

lemma attendance_or_false_own:
  "attendance item (to_key date) = Some b \<Longrightarrow> attendance_or_false item date = PBool b"
  by (simp add: attendance_or_false_def obj_get_def)


lemma handleDateChange_records:
  "attendanceRecords (handleDateChange date s) =
     map (\<lambda>item. \<lparr>name = AttendanceData.name item,
                   present = attendance_or_false item (JStr date)\<rparr>) (fullAttendanceData s)"
  by (simp add: handleDateChange_def updateAttendanceRecordsForDate_def)

lemma handleDateChange_matrix:
  "fullAttendanceData (handleDateChange date s) = fullAttendanceData s"
  by (simp add: handleDateChange_def updateAttendanceRecordsForDate_def)





section \<open>Toggling a checkbox\<close>

text \<open>Once a date has been selected, the view and the matrix have the same length.\<close>

lemma view_aligned_after_select:
  "length (attendanceRecords (handleDateChange date s))
     = length (fullAttendanceData (handleDateChange date s))"
  by (simp add: handleDateChange_records handleDateChange_matrix)








section \<open>Updating a date column\<close>

lemma findIndex_None: "findIndex P xs = None \<longleftrightarrow> (\<forall>x \<in> set xs. \<not> P x)"
  by (induction xs) auto

lemma findIndex_Some:
  "findIndex P xs = Some i \<Longrightarrow> i < length xs \<and> P (xs ! i) \<and> (\<forall>j < i. \<not> P (xs ! j))"
proof (induction xs arbitrary: i)
  case Nil
  then show ?case by simp
next
  case (Cons x xs)
  show ?case
  proof (cases "P x")
    case True
    with Cons.prems show ?thesis by simp
  next
    case False
    with Cons.prems obtain k where k: "findIndex P xs = Some k" "i = Suc k"
      by auto
    from Cons.IH [OF k(1)] False k(2) show ?thesis
      by (auto simp: nth_Cons split: nat.splits)
  qed
qed

lemma batch_none_found:
  "\<forall>r \<in> set records. find_row tbl (AttendanceRecord.name r) = None \<Longrightarrow>
   batchUpdateData tbl col records = []"
  by (induction records) simp_all

lemma update_none_found:
  assumes "\<forall>r \<in> set records. find_row (sheet env) (AttendanceRecord.name r) = None"
  shows "updated (updateAttendanceInSheet env date records) = False"
    and "env_after (updateAttendanceInSheet env date records) = env"
  using batch_none_found [OF assms]
  by (simp_all add: updateAttendanceInSheet_def Let_def split: list.split option.split)

text \<open>
  A request for a date that is in no header cell and a request for a date that is there,
  but for a person who is in no row, end alike: \<^verbatim>\<open>updateAttendanceInSheet\<close> returns
  \<open>False\<close>, the endpoint answers 500 and the sheet is as before. Nothing in what the
  caller gets tells the missing date from the other failure.
\<close>

theorem date_not_found_same_failure_counterexample:
  "JStr ''1/1/2025'' \<notin> set (hd label_sheet)
   \<and> JStr ''7/20/2025'' \<in> set (hd label_sheet)
   \<and> updated (updateAttendanceInSheet (env_of label_sheet) (JStr ''1/1/2025'')
        [\<lparr>name = JStr ''Smith, Jane'', present = PBool True\<rparr>])
     = updated (updateAttendanceInSheet (env_of label_sheet) (JStr ''7/20/2025'')
        [\<lparr>name = JStr ''Nobody'', present = PBool True\<rparr>])
   \<and> updateAttendance (env_of label_sheet) (JStr ''1/1/2025'')
        (Some [\<lparr>name = JStr ''Smith, Jane'', present = PBool True\<rparr>])
     = (500, env_of label_sheet)
   \<and> updateAttendance (env_of label_sheet) (JStr ''7/20/2025'')
        (Some [\<lparr>name = JStr ''Nobody'', present = PBool True\<rparr>])
     = (500, env_of label_sheet)"
  by (simp add: label_sheet_def env_of_def updateAttendance_def updateAttendanceInSheet_def
      find_row_def js_index_def Let_def)

text \<open>
  Claim C4, as the code has it. When the requested date equals no cell of the header row
  (the comparison is \<^verbatim>\<open>===\<close>, so \<^verbatim>\<open>7/20/2025\<close> does not find \<^verbatim>\<open>07/20/2025\<close>), the
  update returns \<open>False\<close> and the environment is exactly as before, so no
  \<^verbatim>\<open>batchUpdate\<close> was issued and no cell written; the endpoint answers 500 (400 when the
  date is falsy). \<open>False\<close> is no error of its own: it is also what a request returns none
  of whose records has a row, whatever its date. That the date was missing shows only in
  the console line, when the header was reached.
\<close>

theorem update_date_not_found:
  assumes "sheet env = headerRow # rows" "date \<notin> set headerRow"
  shows "updated (updateAttendanceInSheet env date records) = False
       \<and> env_after (updateAttendanceInSheet env date records) = env
       \<and> snd (updateAttendance env date (Some records)) = env
       \<and> fst (updateAttendance env date (Some records)) = (if truthy date then 500 else 400)
       \<and> (key_file_exists env \<and> truthy (sheet_id env) \<and> \<not> get_throws env \<longrightarrow>
            console (updateAttendanceInSheet env date records) = [ErrDateNotFound date])
       \<and> ((\<forall>r \<in> set others. find_row (sheet env) (AttendanceRecord.name r) = None) \<longrightarrow>
            updated (updateAttendanceInSheet env date' others) = False
          \<and> env_after (updateAttendanceInSheet env date' others) = env)"
proof -
  have "findIndex (\<lambda>header. header = date) headerRow = None"
    using assms(2) by (auto simp: findIndex_None)
  then have a: "updated (updateAttendanceInSheet env date records) = False
       \<and> env_after (updateAttendanceInSheet env date records) = env
       \<and> snd (updateAttendance env date (Some records)) = env
       \<and> fst (updateAttendance env date (Some records)) = (if truthy date then 500 else 400)
       \<and> (key_file_exists env \<and> truthy (sheet_id env) \<and> \<not> get_throws env \<longrightarrow>
            console (updateAttendanceInSheet env date records) = [ErrDateNotFound date])"
    using assms(1) by (simp add: updateAttendanceInSheet_def updateAttendance_def Let_def)
  have b: "(\<forall>r \<in> set others. find_row (sheet env) (AttendanceRecord.name r) = None) \<longrightarrow>
            updated (updateAttendanceInSheet env date' others) = False
          \<and> env_after (updateAttendanceInSheet env date' others) = env"
    using update_none_found by blast
  show ?thesis using a b by blast
qed

theorem update_date_not_found_witness:
  "sheet (env_of [[JStr ''Name'', JStr ''07/20/2025''], [JStr ''Smith, Jane'', JStr ''TRUE'']])
     = [JStr ''Name'', JStr ''07/20/2025''] # [[JStr ''Smith, Jane'', JStr ''TRUE'']]
   \<and> JStr ''7/20/2025'' \<notin> set [JStr ''Name'', JStr ''07/20/2025'']
   \<and> updateAttendanceInSheet
        (env_of [[JStr ''Name'', JStr ''07/20/2025''], [JStr ''Smith, Jane'', JStr ''TRUE'']])
        (JStr ''7/20/2025'') [\<lparr>name = JStr ''Smith, Jane'', present = PBool False\<rparr>]
      = \<lparr>updated = False, console = [ErrDateNotFound (JStr ''7/20/2025'')],
         env_after = env_of [[JStr ''Name'', JStr ''07/20/2025''],
                             [JStr ''Smith, Jane'', JStr ''TRUE'']]\<rparr>
   \<and> fst (updateAttendance
        (env_of [[JStr ''Name'', JStr ''07/20/2025''], [JStr ''Smith, Jane'', JStr ''TRUE'']])
        (JStr ''7/20/2025'') (Some [\<lparr>name = JStr ''Smith, Jane'', present = PBool False\<rparr>]))
      = 500
   \<and> updated (updateAttendanceInSheet
        (env_of [[JStr ''Name'', JStr ''07/20/2025''], [JStr ''Smith, Jane'', JStr ''TRUE'']])
        (JStr ''07/20/2025'') [\<lparr>name = JStr ''Nobody'', present = PBool False\<rparr>]) = False"
proof -
  let ?e = "env_of [[JStr ''Name'', JStr ''07/20/2025''], [JStr ''Smith, Jane'', JStr ''TRUE'']]"
  have a: "sheet ?e = [JStr ''Name'', JStr ''07/20/2025''] # [[JStr ''Smith, Jane'', JStr ''TRUE'']]"
    by (simp add: env_of_def)
  have b: "JStr ''7/20/2025'' \<notin> set [JStr ''Name'', JStr ''07/20/2025'']"
    by simp
  have c: "key_file_exists ?e \<and> truthy (sheet_id ?e) \<and> \<not> get_throws ?e"
    by (simp add: env_of_def)
  have n: "\<forall>r \<in> set [\<lparr>name = JStr ''Nobody'', present = PBool False\<rparr>].
             find_row (sheet ?e) (AttendanceRecord.name r) = None"
    by (simp add: env_of_def find_row_def js_index_def)
  note t = update_date_not_found [OF a b,
      of "[\<lparr>name = JStr ''Smith, Jane'', present = PBool False\<rparr>]"
         "[\<lparr>name = JStr ''Nobody'', present = PBool False\<rparr>]" "JStr ''07/20/2025''"]
  have r: "updateAttendanceInSheet ?e (JStr ''7/20/2025'')
             [\<lparr>name = JStr ''Smith, Jane'', present = PBool False\<rparr>]
      = \<lparr>updated = False, console = [ErrDateNotFound (JStr ''7/20/2025'')], env_after = ?e\<rparr>"
    using t c by (simp add: update_result.equality)
  have st: "fst (updateAttendance ?e (JStr ''7/20/2025'')
              (Some [\<lparr>name = JStr ''Smith, Jane'', present = PBool False\<rparr>])) = 500"
    using t by simp
  have o: "updated (updateAttendanceInSheet ?e (JStr ''07/20/2025'')
             [\<lparr>name = JStr ''Nobody'', present = PBool False\<rparr>]) = False"
    using t n by blast
  from a b r st o show ?thesis
    by - (intro conjI; assumption)
qed

section \<open>Reading the sheet\<close>

lemma forEach_date_other:
  "k \<notin> to_key ` set ds \<Longrightarrow> forEach_date row idx ds acc k = acc k"
  by (induction ds arbitrary: idx acc) (auto simp: obj_set_other)


lemma forEach_date_at:
  "i < length ds \<Longrightarrow> to_key (ds ! i) \<notin> to_key ` set (drop (Suc i) ds) \<Longrightarrow>
   to_key (ds ! i) \<noteq> ''__proto__'' \<Longrightarrow>
   forEach_date row idx ds acc (to_key (ds ! i)) = Some (cell_is_true (js_index row (idx + i + 1)))"
proof (induction ds arbitrary: i idx acc)
  case Nil
  then show ?case by simp
next
  case (Cons d ds)
  show ?case
  proof (cases i)
    case 0
    with Cons.prems show ?thesis by (simp add: forEach_date_other obj_set_apply)
  next
    case (Suc j)
    with Cons.prems Cons.IH [of j "Suc idx"] show ?thesis by simp
  qed
qed




section \<open>Formatting a date key\<close>

text \<open>
  Claim C9. \<open>formatDateForDisplay\<close> is a function of its argument and of the two library
  calls alone. Whenever the text parses and the date formats, the result is the formatted
  text; whenever either call throws, the result is the text that was passed in. With
  date-fns as documented, a text that parses to a calendar day is shown in the long form
  (month name, day, four-digit year), and a text that parses to Invalid Date comes back
  unchanged, because \<^verbatim>\<open>format\<close> throws on it.
\<close>

theorem formatDateForDisplay_total:
  "(\<forall>date shown. parse s = Inr date \<and> format date = Inr shown \<longrightarrow>
       formatDateForDisplay parse format s = shown)
   \<and> (\<forall>e. parse s = Inl e \<longrightarrow> formatDateForDisplay parse format s = s)
   \<and> (\<forall>date e. parse s = Inr date \<and> format date = Inl e \<longrightarrow>
       formatDateForDisplay parse format s = s)
   \<and> (\<forall>y m d. parse_Mdyyyy s = Inr (ValidDate y m d) \<longrightarrow>
       formatDateForDisplay parse_Mdyyyy format_MMMMdyyyy s = long_form y m d)
   \<and> (parse_Mdyyyy s = Inr InvalidDate \<longrightarrow>
       formatDateForDisplay parse_Mdyyyy format_MMMMdyyyy s = s)"
  by (simp add: formatDateForDisplay_def)

theorem formatDateForDisplay_total_witness:
  "parse_Mdyyyy ''7/20/2025'' = Inr (ValidDate 2025 7 20)
   \<and> formatDateForDisplay parse_Mdyyyy format_MMMMdyyyy ''7/20/2025'' = ''July 20, 2025''
   \<and> parse_Mdyyyy ''not-a-date'' = Inr InvalidDate
   \<and> formatDateForDisplay parse_Mdyyyy format_MMMMdyyyy ''not-a-date'' = ''not-a-date''"
proof -
  have p1: "parse_Mdyyyy ''7/20/2025'' = Inr (ValidDate 2025 7 20)"
    by code_simp
  have p2: "parse_Mdyyyy ''not-a-date'' = Inr InvalidDate"
    by code_simp
  have l: "long_form 2025 7 20 = ''July 20, 2025''"
    by code_simp
  from formatDateForDisplay_total [of parse_Mdyyyy "''7/20/2025''" format_MMMMdyyyy] p1
  have a: "formatDateForDisplay parse_Mdyyyy format_MMMMdyyyy ''7/20/2025'' = long_form 2025 7 20"
    by blast
  from formatDateForDisplay_total [of parse_Mdyyyy "''not-a-date''" format_MMMMdyyyy] p2
  have b: "formatDateForDisplay parse_Mdyyyy format_MMMMdyyyy ''not-a-date'' = ''not-a-date''"
    by blast
  show ?thesis using p1 p2 a b l by simp
qed

section \<open>The cache of authorized emails\<close>

text \<open>
  With a cached list that is ten minutes old and a store that cannot be read, the result
  is the empty list and not the cached one; and a failed first load returns what a
  successful load of an empty collection returns.
\<close>

theorem failed_read_returns_empty_counterexample:
  "cachedAuthorizedEmails stale_cache = [''admin@example.com'']
   \<and> read_throws unreachable_db
   \<and> fst (getAuthorizedEmails 600000 unreachable_db stale_cache) = []
   \<and> fst (getAuthorizedEmails 600000 unreachable_db empty_cache)
       = fst (getAuthorizedEmails 600000 empty_db empty_cache)"
  by (simp add: getAuthorizedEmails_def stale_cache_def empty_cache_def unreachable_db_def
      empty_db_def CACHE_DURATION_def)

text \<open>
  Claim C7, as the code has it. When the cache cannot be used (it is empty or ten minutes
  old) and the read fails, \<open>getAuthorizedEmails\<close> returns the empty list, whatever the
  cache holds, and leaves the cache and its time stamp as they were. A cache that is not
  empty and younger than ten minutes is returned without any read.
\<close>

theorem failed_read_result:
  "(read_throws db \<and> (cachedAuthorizedEmails cache = [] \<or> CACHE_DURATION \<le> now - lastFetchTime cache)
      \<longrightarrow> getAuthorizedEmails now db cache = ([], cache))
   \<and> (cachedAuthorizedEmails cache \<noteq> [] \<and> now - lastFetchTime cache < CACHE_DURATION
      \<longrightarrow> getAuthorizedEmails now db cache = (cachedAuthorizedEmails cache, cache))"
  by (auto simp: getAuthorizedEmails_def)

theorem failed_read_result_witness:
  "read_throws unreachable_db
   \<and> CACHE_DURATION \<le> 600000 - lastFetchTime stale_cache
   \<and> getAuthorizedEmails 600000 unreachable_db stale_cache = ([], stale_cache)
   \<and> cachedAuthorizedEmails stale_cache \<noteq> [] \<and> 599999 - lastFetchTime stale_cache < CACHE_DURATION
   \<and> getAuthorizedEmails 599999 unreachable_db stale_cache = ([''admin@example.com''], stale_cache)"
proof -
  have h: "read_throws unreachable_db" "CACHE_DURATION \<le> 600000 - lastFetchTime stale_cache"
    "cachedAuthorizedEmails stale_cache \<noteq> []"
    "599999 - lastFetchTime stale_cache < CACHE_DURATION"
    "cachedAuthorizedEmails stale_cache = [''admin@example.com'']"
    by (simp_all add: unreachable_db_def stale_cache_def CACHE_DURATION_def)
  from failed_read_result [of unreachable_db stale_cache 600000]
       failed_read_result [of unreachable_db stale_cache 599999] h
  show ?thesis by simp
qed

section \<open>Loading from an empty sheet\<close>

text \<open>
  A sheet without rows is answered with two empty lists, and a client that had one person
  loaded ends with an empty matrix and no error.
\<close>

theorem empty_sheet_load_counterexample:
  "getAttendanceDataFromSheet (env_of []) = Inr \<lparr>dates = [], attendanceData = []\<rparr>
   \<and> length (fullAttendanceData smith_state) = 1
   \<and> fullAttendanceData (loadAll (env_of []) smith_state) = []
   \<and> app_state.error (loadAll (env_of []) smith_state) = None"
  by (simp add: getAttendanceDataFromSheet_def getAttendanceData_def loadAll_def env_of_def
      fetchAttendanceData_def response_ok_def smith_state_def)

text \<open>
  Claim C5, as the code has it. A read that returns zero rows is a success: the adapter
  returns an empty date list and an empty matrix, and \<open>loadAll\<close> stores both in place of
  what was loaded before, keeps the selected date and the view, and sets no error. When
  the adapter throws (the endpoint answers 500), and for any rejected request, error status
  or malformed body, \<open>loadAll\<close> keeps the matrix, the date list, the selection and the view
  and sets an error.
\<close>

theorem empty_sheet_load:
  "(sheet env = [] \<and> key_file_exists env \<and> \<not> get_throws env \<longrightarrow>
      getAttendanceDataFromSheet env = Inr \<lparr>dates = [], attendanceData = []\<rparr>
    \<and> loadAll env s =
        s\<lparr>loading := False, app_state.error := None, saveSuccess := False, saveError := None,
          fullAttendanceData := [], availableDates := []\<rparr>)
   \<and> (\<forall>e. getAttendanceDataFromSheet env = Inl e \<longrightarrow>
        loadAll env s =
          s\<lparr>loading := False, app_state.error := Some (HttpError 500), saveSuccess := False,
            saveError := None\<rparr>)
   \<and> (\<forall>outcome. (\<forall>status body. outcome = Response status body \<longrightarrow>
                      \<not> response_ok status \<or> body = OtherBody) \<longrightarrow>
        fullAttendanceData (fetchAttendanceData outcome s) = fullAttendanceData s
      \<and> availableDates (fetchAttendanceData outcome s) = availableDates s
      \<and> selectedDate (fetchAttendanceData outcome s) = selectedDate s
      \<and> attendanceRecords (fetchAttendanceData outcome s) = attendanceRecords s
      \<and> app_state.error (fetchAttendanceData outcome s) \<noteq> None
      \<and> app_state.loading (fetchAttendanceData outcome s) = False)"
proof (intro conjI allI impI)
  assume "sheet env = [] \<and> key_file_exists env \<and> \<not> get_throws env"
  then show "getAttendanceDataFromSheet env = Inr \<lparr>dates = [], attendanceData = []\<rparr>"
    by (simp add: getAttendanceDataFromSheet_def)
  then show "loadAll env s =
        s\<lparr>loading := False, app_state.error := None, saveSuccess := False, saveError := None,
          fullAttendanceData := [], availableDates := []\<rparr>"
    by (simp add: loadAll_def getAttendanceData_def fetchAttendanceData_def response_ok_def)
next
  fix e assume "getAttendanceDataFromSheet env = Inl e"
  then show "loadAll env s =
          s\<lparr>loading := False, app_state.error := Some (HttpError 500), saveSuccess := False,
            saveError := None\<rparr>"
    by (simp add: loadAll_def getAttendanceData_def fetchAttendanceData_def response_ok_def)
next
  fix outcome
  assume a: "\<forall>status body. outcome = Response status body \<longrightarrow>
                      \<not> response_ok status \<or> body = OtherBody"
  show "fullAttendanceData (fetchAttendanceData outcome s) = fullAttendanceData s"
    using a by (cases outcome) (auto simp: fetchAttendanceData_def Let_def)
  show "availableDates (fetchAttendanceData outcome s) = availableDates s"
    using a by (cases outcome) (auto simp: fetchAttendanceData_def Let_def)
  show "selectedDate (fetchAttendanceData outcome s) = selectedDate s"
    using a by (cases outcome) (auto simp: fetchAttendanceData_def Let_def)
  show "attendanceRecords (fetchAttendanceData outcome s) = attendanceRecords s"
    using a by (cases outcome) (auto simp: fetchAttendanceData_def Let_def)
  show "app_state.error (fetchAttendanceData outcome s) \<noteq> None"
    using a by (cases outcome) (auto simp: fetchAttendanceData_def Let_def)
  show "app_state.loading (fetchAttendanceData outcome s) = False"
    using a by (cases outcome) (auto simp: fetchAttendanceData_def Let_def)
qed

theorem empty_sheet_load_witness:
  "sheet (env_of []) = [] \<and> key_file_exists (env_of []) \<and> \<not> get_throws (env_of [])
   \<and> availableDates (loadAll (env_of []) smith_state) = []
   \<and> fullAttendanceData (loadAll (env_of []) smith_state) = []
   \<and> selectedDate (loadAll (env_of []) smith_state) = JStr ''7/20/2025''
   \<and> getAttendanceDataFromSheet failing_env = Inl ApiError
   \<and> length (fullAttendanceData (loadAll failing_env smith_state)) = 1
   \<and> app_state.error (loadAll failing_env smith_state) = Some (HttpError 500)
   \<and> app_state.error (fetchAttendanceData (Response 403 OtherBody) smith_state) \<noteq> None
   \<and> length (fullAttendanceData (fetchAttendanceData (Response 403 OtherBody) smith_state)) = 1"
proof -
  have h: "sheet (env_of []) = [] \<and> key_file_exists (env_of []) \<and> \<not> get_throws (env_of [])"
    by (simp add: env_of_def)
  have f: "getAttendanceDataFromSheet failing_env = Inl ApiError"
    by (simp add: getAttendanceDataFromSheet_def failing_env_def)
  have o: "\<forall>status body. (Response 403 OtherBody :: get_body http_outcome) = Response status body \<longrightarrow>
                      \<not> response_ok status \<or> body = OtherBody"
    by simp
  have a: "loadAll (env_of []) smith_state =
        smith_state\<lparr>loading := False, app_state.error := None, saveSuccess := False, saveError := None,
          fullAttendanceData := [], availableDates := []\<rparr>"
    using empty_sheet_load [of "env_of []" smith_state] h by blast
  have b: "loadAll failing_env smith_state =
          smith_state\<lparr>loading := False, app_state.error := Some (HttpError 500), saveSuccess := False,
            saveError := None\<rparr>"
    using empty_sheet_load [of failing_env smith_state] f by blast
  have c: "fullAttendanceData (fetchAttendanceData (Response 403 OtherBody) smith_state)
             = fullAttendanceData smith_state
      \<and> app_state.error (fetchAttendanceData (Response 403 OtherBody) smith_state) \<noteq> None"
    using empty_sheet_load [of "env_of []" smith_state] o by blast
  show ?thesis
    using h f c by (simp add: a b) (simp add: smith_state_def)
qed

section \<open>Removing an authorized email\<close>

text \<open>
  \<open>removeAuthorizedEmail\<close> does not know who is acting: called with the email of the
  administrator who is signed in, it deletes that entry and returns \<open>True\<close>.
\<close>

theorem removeAuthorizedEmail_self_counterexample:
  "removeAuthorizedEmail ''admin@example.com'' admin_db stale_cache =
     (True,
      \<lparr>docs = [\<lparr>doc_id = ''u2'', email = ''helper@example.com'', addedBy = ''admin@example.com'',
                addedAt = 1\<rparr>],
       read_throws = False, write_throws = False\<rparr>,
      \<lparr>cachedAuthorizedEmails = [], lastFetchTime = 0\<rparr>)"
proof -
  have "toLowerCase ''admin@example.com'' = ''admin@example.com''"
    by code_simp
  then show ?thesis
    by (simp add: removeAuthorizedEmail_def admin_db_def)
qed

text \<open>
  Claim C8, as the code has it. The guard against removing oneself is in the handler of
  the user list: when the email passed to \<open>handleRemoveEmail\<close> is the current user's
  email, character for character, the handler calls nothing; the collection and the cache
  are unchanged, no success is reported, and the only change is the error message.
  \<open>removeAuthorizedEmail\<close> has no such guard and no acting user. For an ASCII
  argument: when the collection can be read and written and a stored email equals the
  argument in lower case, it deletes the first such document by its id, empties the cache
  and returns \<open>True\<close>; when the read or the delete fails, or no stored email equals the
  argument in lower case, it returns \<open>False\<close> and changes nothing.
\<close>

theorem handleRemoveEmail_self:
  "handleRemoveEmail e e now db cache st =
     (st\<lparr>um_state.error := Some ''You cannot remove your own email from the authorized list.''\<rparr>,
      db, cache)
   \<and> (ascii e \<and> \<not> read_throws db \<and> \<not> write_throws db
        \<and> filter (\<lambda>d. email d = toLowerCase e) (docs db) = hit # rest \<longrightarrow>
      removeAuthorizedEmail e db cache =
        (True, db\<lparr>docs := filter (\<lambda>d. doc_id d \<noteq> doc_id hit) (docs db)\<rparr>,
         \<lparr>cachedAuthorizedEmails = [], lastFetchTime = 0\<rparr>))
   \<and> (ascii e \<and> (read_throws db \<or> write_throws db
        \<or> filter (\<lambda>d. email d = toLowerCase e) (docs db) = []) \<longrightarrow>
      removeAuthorizedEmail e db cache = (False, db, cache))"
  by (auto simp: handleRemoveEmail_def removeAuthorizedEmail_def split: list.split)

theorem handleRemoveEmail_self_witness:
  "handleRemoveEmail ''admin@example.com'' ''admin@example.com'' 0 admin_db stale_cache
     idle_um_state
     = (idle_um_state\<lparr>um_state.error :=
          Some ''You cannot remove your own email from the authorized list.''\<rparr>,
        admin_db, stale_cache)
   \<and> fst (removeAuthorizedEmail ''Admin@Example.com'' admin_db stale_cache) = True
   \<and> map email (docs (fst (snd (removeAuthorizedEmail ''Admin@Example.com'' admin_db
        stale_cache)))) = [''helper@example.com'']
   \<and> removeAuthorizedEmail ''admin@example.com'' unreachable_db stale_cache
       = (False, unreachable_db, stale_cache)"
proof -
  let ?hit = "\<lparr>doc_id = ''u1'', email = ''admin@example.com'', addedBy = ''setup'', addedAt = 0\<rparr>"
  have l: "toLowerCase ''Admin@Example.com'' = ''admin@example.com''"
    by code_simp
  have f: "ascii ''Admin@Example.com'' \<and> \<not> read_throws admin_db \<and> \<not> write_throws admin_db
        \<and> filter (\<lambda>d. email d = toLowerCase ''Admin@Example.com'') (docs admin_db) = ?hit # []"
    by (simp add: l admin_db_def ascii_def)
  have u: "ascii ''admin@example.com'' \<and> read_throws unreachable_db"
    by (simp add: unreachable_db_def ascii_def)
  have a: "handleRemoveEmail ''admin@example.com'' ''admin@example.com'' 0 admin_db stale_cache
     idle_um_state
     = (idle_um_state\<lparr>um_state.error :=
          Some ''You cannot remove your own email from the authorized list.''\<rparr>,
        admin_db, stale_cache)"
    using handleRemoveEmail_self [of "''admin@example.com''" 0 admin_db stale_cache idle_um_state]
    by blast
  have b: "removeAuthorizedEmail ''Admin@Example.com'' admin_db stale_cache =
        (True, admin_db\<lparr>docs := filter (\<lambda>d. doc_id d \<noteq> doc_id ?hit) (docs admin_db)\<rparr>,
         \<lparr>cachedAuthorizedEmails = [], lastFetchTime = 0\<rparr>)"
    using handleRemoveEmail_self [of "''Admin@Example.com''" 0 admin_db stale_cache idle_um_state
        ?hit "[]"] f
    by blast
  have c: "removeAuthorizedEmail ''admin@example.com'' unreachable_db stale_cache
       = (False, unreachable_db, stale_cache)"
    using handleRemoveEmail_self [of "''admin@example.com''" 0 unreachable_db stale_cache
        idle_um_state] u
    by blast
  show ?thesis
    using a c by (simp add: b) (simp add: admin_db_def)
qed

section \<open>Locating the row of a record\<close>

lemma findIndex_first:
  "i < length xs \<Longrightarrow> P (xs ! i) \<Longrightarrow> \<forall>j < i. \<not> P (xs ! j) \<Longrightarrow> findIndex P xs = Some i"
proof (induction xs arbitrary: i)
  case Nil
  then show ?case by simp
next
  case (Cons x xs)
  show ?case
  proof (cases i)
    case 0
    with Cons.prems show ?thesis by simp
  next
    case (Suc k)
    with Cons.prems have "\<not> P x" by auto
    moreover from Suc Cons.prems have "k < length xs" "P (xs ! k)" "\<forall>j < k. \<not> P (xs ! j)"
      by auto
    ultimately show ?thesis using Cons.IH [of k] Suc by simp
  qed
qed

lemma find_row_iff:
  "find_row tbl n = Some r \<longleftrightarrow>
     r < length tbl \<and> js_index (tbl ! r) 0 = n \<and> (\<forall>q < r. js_index (tbl ! q) 0 \<noteq> n)"
proof
  assume "find_row tbl n = Some r"
  then have "findIndex (\<lambda>row. js_index row 0 = n) tbl = Some r"
    by (simp add: find_row_def)
  from findIndex_Some [OF this]
  show "r < length tbl \<and> js_index (tbl ! r) 0 = n \<and> (\<forall>q < r. js_index (tbl ! q) 0 \<noteq> n)"
    by simp
next
  assume "r < length tbl \<and> js_index (tbl ! r) 0 = n \<and> (\<forall>q < r. js_index (tbl ! q) 0 \<noteq> n)"
  then show "find_row tbl n = Some r"
    unfolding find_row_def by (intro findIndex_first) simp_all
qed

lemma find_row_None:
  "find_row tbl n = None \<longleftrightarrow> (\<forall>r < length tbl. js_index (tbl ! r) 0 \<noteq> n)"
proof
  assume "find_row tbl n = None"
  then have a: "\<forall>x \<in> set tbl. js_index x 0 \<noteq> n"
    by (simp add: find_row_def findIndex_None)
  show "\<forall>r < length tbl. js_index (tbl ! r) 0 \<noteq> n"
  proof (intro allI impI)
    fix r
    assume "r < length tbl"
    then have "tbl ! r \<in> set tbl" by simp
    with a show "js_index (tbl ! r) 0 \<noteq> n" by blast
  qed
next
  assume a: "\<forall>r < length tbl. js_index (tbl ! r) 0 \<noteq> n"
  have "\<forall>x \<in> set tbl. js_index x 0 \<noteq> n"
  proof
    fix x
    assume "x \<in> set tbl"
    then obtain r where "r < length tbl" "tbl ! r = x"
      by (auto simp: in_set_conv_nth)
    with a show "js_index x 0 \<noteq> n" by blast
  qed
  then show "find_row tbl n = None"
    by (simp add: find_row_def findIndex_None)
qed

lemma batch_by_find_row:
  "batchUpdateData tbl col records =
     List.map_filter
       (\<lambda>record. map_option
          (\<lambda>rowIndex. \<lparr>column_code = col, row_number = rowIndex + 1,
                         written = present record\<rparr>)
          (find_row tbl (AttendanceRecord.name record)))
       records"
  by (induction records) (auto split: option.split)

lemma set_cell_header:
  "c < length h \<Longrightarrow> set_cell (h # rows) 0 c v = h[c := v] # rows"
  by (simp add: set_cell_def)

lemma update_issues_batch:
  assumes "key_file_exists env" "truthy (sheet_id env)" "\<not> get_throws env"
    and "sheet env = headerRow # rows"
    and "findIndex (\<lambda>header. header = date) headerRow = Some c"
    and "batchUpdateData (sheet env) (65 + c) records \<noteq> []"
  shows "batches (env_after (updateAttendanceInSheet env date records))
           = batches env @ [batchUpdateData (sheet env) (65 + c) records]"
  using assms by (simp add: updateAttendanceInSheet_def Let_def split: option.split)

text \<open>
  Claim C10. The row of a record is the first row of the whole value table whose first
  cell equals the record's name, the header row included: the search answers with a row
  exactly when that row is the first one with this first cell, and with none exactly
  when no row has it. The batch holds, for each record in turn, a write to that row in
  the date's column, and nothing for a record without a row; this batch is what is sent.
  So a record named like the header's first cell (the label of the name column) is
  located at row 1: the batch holds a write to the date's column in row 1, and an update
  made of that record alone, carrying a boolean, succeeds and replaces the date's header
  cell by the boolean instead of skipping the record.
\<close>

theorem header_row_is_searched:
  assumes "key_file_exists env" "truthy (sheet_id env)" "\<not> get_throws env" "\<not> batch_throws env"
    and "sheet env = headerRow # rows"
    and "findIndex (\<lambda>header. header = date) headerRow = Some c" "c \<le> 25"
    and "AttendanceRecord.name record = js_index headerRow 0"
    and "present record = PBool b"
  shows "(\<forall>tbl n r. find_row tbl n = Some r \<longleftrightarrow>
            r < length tbl \<and> js_index (tbl ! r) 0 = n \<and> (\<forall>q < r. js_index (tbl ! q) 0 \<noteq> n))
       \<and> (\<forall>tbl n. find_row tbl n = None \<longleftrightarrow> (\<forall>r < length tbl. js_index (tbl ! r) 0 \<noteq> n))
       \<and> (\<forall>tbl col rs. batchUpdateData tbl col rs =
            List.map_filter
              (\<lambda>x. map_option
                 (\<lambda>rowIndex. \<lparr>column_code = col, row_number = rowIndex + 1,
                                written = present x\<rparr>)
                 (find_row tbl (AttendanceRecord.name x)))
              rs)
       \<and> (batchUpdateData (sheet env) (65 + c) records \<noteq> [] \<longrightarrow>
            batches (env_after (updateAttendanceInSheet env date records))
              = batches env @ [batchUpdateData (sheet env) (65 + c) records])
       \<and> find_row (sheet env) (AttendanceRecord.name record) = Some 0
       \<and> (record \<in> set records \<longrightarrow>
            \<lparr>column_code = 65 + c, row_number = 1, written = PBool b\<rparr>
              \<in> set (batchUpdateData (sheet env) (65 + c) records))
       \<and> updated (updateAttendanceInSheet env date [record])
       \<and> sheet (env_after (updateAttendanceInSheet env date [record]))
           = headerRow[c := JBool b] # rows"
proof -
  have first: "\<forall>tbl n r. find_row tbl n = Some r \<longleftrightarrow>
            r < length tbl \<and> js_index (tbl ! r) 0 = n \<and> (\<forall>q < r. js_index (tbl ! q) 0 \<noteq> n)"
    using find_row_iff by blast
  have none: "\<forall>tbl n. find_row tbl n = None \<longleftrightarrow> (\<forall>r < length tbl. js_index (tbl ! r) 0 \<noteq> n)"
    using find_row_None by blast
  have batchall: "\<forall>tbl col rs. batchUpdateData tbl col rs =
            List.map_filter
              (\<lambda>x. map_option
                 (\<lambda>rowIndex. \<lparr>column_code = col, row_number = rowIndex + 1,
                                written = present x\<rparr>)
                 (find_row tbl (AttendanceRecord.name x)))
              rs"
    using batch_by_find_row by blast
  have sent: "batchUpdateData (sheet env) (65 + c) records \<noteq> [] \<longrightarrow>
            batches (env_after (updateAttendanceInSheet env date records))
              = batches env @ [batchUpdateData (sheet env) (65 + c) records]"
    using update_issues_batch [OF assms(1-3,5,6)] by blast
  have row: "find_row (sheet env) (AttendanceRecord.name record) = Some 0"
    using assms(5,8) by (simp add: find_row_def)
  have mem: "record \<in> set records \<longrightarrow>
            \<lparr>column_code = 65 + c, row_number = 1, written = PBool b\<rparr>
              \<in> set (batchUpdateData (sheet env) (65 + c) records)"
  proof
    assume "record \<in> set records"
    then show "\<lparr>column_code = 65 + c, row_number = 1, written = PBool b\<rparr>
              \<in> set (batchUpdateData (sheet env) (65 + c) records)"
      using row assms(9) by (induction records) (auto split: option.split)
  qed
  have c: "c < length headerRow"
    using findIndex_Some [OF assms(6)] by simp
  have batch: "batchUpdateData (sheet env) (65 + c) [record]
                 = [\<lparr>column_code = 65 + c, row_number = 1, written = PBool b\<rparr>]"
    using row assms(9) by simp
  have app: "apply_batch [\<lparr>column_code = 65 + c, row_number = 1, written = PBool b\<rparr>]
               (headerRow # rows) = Some (headerRow[c := JBool b] # rows)"
    using assms(7) c by (simp add: a1_column_def set_cell_header)
  have upd: "updated (updateAttendanceInSheet env date [record])"
    "sheet (env_after (updateAttendanceInSheet env date [record]))
           = headerRow[c := JBool b] # rows"
    using assms(1-6) batch app by (simp_all add: updateAttendanceInSheet_def Let_def)
  show ?thesis using first none batchall sent row mem upd by blast
qed

theorem header_row_is_searched_witness:
  "AttendanceRecord.name \<lparr>name = JStr ''Name'', present = PBool True\<rparr>
     = js_index (hd label_sheet) 0
   \<and> find_row label_sheet (JStr ''Name'') = Some 0
   \<and> find_row label_sheet (JStr ''Smith, Jane'') = Some 1
   \<and> find_row label_sheet (JStr ''Nobody'') = None
   \<and> batchUpdateData label_sheet 66
        [\<lparr>name = JStr ''Nobody'', present = PBool True\<rparr>,
         \<lparr>name = JStr ''Smith, Jane'', present = PBool False\<rparr>]
       = [\<lparr>column_code = 66, row_number = 2, written = PBool False\<rparr>]
   \<and> updated (updateAttendanceInSheet (env_of label_sheet) (JStr ''7/20/2025'')
        [\<lparr>name = JStr ''Name'', present = PBool True\<rparr>])
   \<and> sheet (env_after (updateAttendanceInSheet (env_of label_sheet) (JStr ''7/20/2025'')
        [\<lparr>name = JStr ''Name'', present = PBool True\<rparr>]))
       = [[JStr ''Name'', JBool True], [JStr ''Smith, Jane'', JStr ''TRUE'']]
   \<and> batches (env_after (updateAttendanceInSheet (env_of label_sheet) (JStr ''7/20/2025'')
        [\<lparr>name = JStr ''Name'', present = PBool True\<rparr>]))
       = [[\<lparr>column_code = 66, row_number = 1, written = PBool True\<rparr>]]"
proof -
  let ?h = "[JStr ''Name'', JStr ''7/20/2025'']"
  let ?rows = "[[JStr ''Smith, Jane'', JStr ''TRUE'']]"
  let ?rec = "\<lparr>name = JStr ''Name'', present = PBool True\<rparr>"
  have e: "key_file_exists (env_of label_sheet)" "truthy (sheet_id (env_of label_sheet))"
    "\<not> get_throws (env_of label_sheet)" "\<not> batch_throws (env_of label_sheet)"
    "sheet (env_of label_sheet) = ?h # ?rows"
    by (simp_all add: env_of_def label_sheet_def)
  have c: "findIndex (\<lambda>header. header = JStr ''7/20/2025'') ?h = Some 1" "(1::nat) \<le> 25"
    by simp_all
  have n: "AttendanceRecord.name ?rec = js_index ?h 0" "present ?rec = PBool True"
    by (simp_all add: js_index_def)
  note t = header_row_is_searched [OF e c n, of "[?rec]"]
  have n': "AttendanceRecord.name ?rec = js_index (hd label_sheet) 0"
    by (simp add: js_index_def label_sheet_def)
  have r0: "find_row label_sheet (JStr ''Name'') = Some 0"
    using t e(5) by (simp add: env_of_def)
  have r1: "find_row label_sheet (JStr ''Smith, Jane'') = Some 1"
    using t [THEN conjunct1, rule_format, of label_sheet "JStr ''Smith, Jane''" 1]
    by (simp add: label_sheet_def js_index_def)
  have r2: "find_row label_sheet (JStr ''Nobody'') = None"
    using t [THEN conjunct2, THEN conjunct1, rule_format, of label_sheet "JStr ''Nobody''"]
    by (simp add: label_sheet_def js_index_def less_Suc_eq)
  have b: "batchUpdateData label_sheet 66
        [\<lparr>name = JStr ''Nobody'', present = PBool True\<rparr>,
         \<lparr>name = JStr ''Smith, Jane'', present = PBool False\<rparr>]
       = [\<lparr>column_code = 66, row_number = 2, written = PBool False\<rparr>]"
    using t [THEN conjunct2, THEN conjunct2, THEN conjunct1, rule_format, of label_sheet 66
        "[\<lparr>name = JStr ''Nobody'', present = PBool True\<rparr>,
          \<lparr>name = JStr ''Smith, Jane'', present = PBool False\<rparr>]"]
    by (simp add: r1 r2)
  have u: "updated (updateAttendanceInSheet (env_of label_sheet) (JStr ''7/20/2025'') [?rec])"
    "sheet (env_after (updateAttendanceInSheet (env_of label_sheet) (JStr ''7/20/2025'') [?rec]))
       = [[JStr ''Name'', JBool True], [JStr ''Smith, Jane'', JStr ''TRUE'']]"
    using t by simp_all
  have s: "batches (env_after (updateAttendanceInSheet (env_of label_sheet) (JStr ''7/20/2025'')
        [?rec]))
       = [[\<lparr>column_code = 66, row_number = 1, written = PBool True\<rparr>]]"
    using t e(5) r0 by (simp add: env_of_def)
  from n' r0 r1 r2 b u s show ?thesis
    by - (intro conjI; assumption)
qed

section \<open>Load followed by save\<close>

text \<open>
  A table with a text cell and a missing cell in its date column: loading it and saving at
  once puts \<open>false\<close> into both cells.
\<close>

theorem load_save_counterexample:
  "sheet (snd (save (env_of untidy_sheet) (loadAll (env_of untidy_sheet) initial_state)))
     = [[JStr ''Name'', JStr ''7/20/2025''],
        [JStr ''Smith, Jane'', JBool False],
        [JStr ''Doe, John'', JBool False]]
   \<and> sheet (snd (save (env_of untidy_sheet) (loadAll (env_of untidy_sheet) initial_state)))
     \<noteq> sheet (env_of untidy_sheet)"
  by (simp add: save_def loadAll_def env_of_def untidy_sheet_def initial_state_def
      getAttendanceData_def getAttendanceDataFromSheet_def row_to_data_def js_index_def
      cell_is_true_def fetchAttendanceData_def response_ok_def obj_set_def obj_get_def
      updateAttendanceRecordsForDate_def attendance_or_false_def
      updateAttendance_def updateAttendanceInSheet_def find_row_def Let_def
      a1_column_def set_cell_def)

lemma findIndex_distinct:
  "distinct (map f xs) \<Longrightarrow> r < length xs \<Longrightarrow> findIndex (\<lambda>x. f x = f (xs ! r)) xs = Some r"
proof (induction xs arbitrary: r)
  case Nil
  then show ?case by simp
next
  case (Cons x xs)
  show ?case
  proof (cases r)
    case 0
    then show ?thesis by simp
  next
    case (Suc k)
    with Cons.prems have k: "k < length xs" and d: "distinct (map f xs)"
      and x: "f x \<notin> f ` set xs"
      by auto
    from k x have "f x \<noteq> f (xs ! k)"
      by (metis imageI nth_mem)
    with Cons.IH [OF d k] Suc show ?thesis by simp
  qed
qed

lemma batch_of_rows:
  assumes "distinct (map (\<lambda>row. js_index row 0) tbl)" "\<forall>k \<in> set ks. k < length tbl"
  shows "batchUpdateData tbl col
           (map (\<lambda>k. \<lparr>name = js_index (tbl ! k) 0, present = PBool (b k)\<rparr>) ks)
         = map (\<lambda>k. \<lparr>column_code = col, row_number = k + 1, written = PBool (b k)\<rparr>) ks"
  using assms(2)
proof (induction ks)
  case Nil
  then show ?case by simp
next
  case (Cons k ks)
  then have "k < length tbl" by simp
  from findIndex_distinct [OF assms(1) this]
  have "find_row tbl (js_index (tbl ! k) 0) = Some k"
    by (simp add: find_row_def)
  with Cons show ?case by simp
qed

lemma apply_batch_fold:
  "apply_batch (map (\<lambda>k. \<lparr>column_code = 66, row_number = k + 1, written = PBool (b k)\<rparr>) ks) tbl
     = Some (fold (\<lambda>k t. set_cell t k 1 (JBool (b k))) ks tbl)"
  by (induction ks arbitrary: tbl) (simp_all add: a1_column_def)

lemma padded_row_index:
  "row \<noteq> [] \<Longrightarrow>
   js_index ((row @ replicate (Suc (Suc 0) - length row) x)[Suc 0 := v]) c
     = (if c = Suc 0 then v else js_index row c)"
  by (cases row; cases c)
     (auto simp: js_index_def nth_list_update nth_append nth_Cons' less_Suc_eq_0_disj)

lemma set_cell_length: "k < length t \<Longrightarrow> length (set_cell t k (Suc 0) v) = length t"
  by (simp add: set_cell_def Let_def)

lemma set_cell_other: "k < length t \<Longrightarrow> j \<noteq> k \<Longrightarrow> set_cell t k (Suc 0) v ! j = t ! j"
  by (simp add: set_cell_def Let_def)

lemma set_cell_here:
  "k < length t \<Longrightarrow> t ! k \<noteq> [] \<Longrightarrow>
   js_index (set_cell t k (Suc 0) v ! k) c = (if c = Suc 0 then v else js_index (t ! k) c)"
  by (simp add: set_cell_def Let_def padded_row_index)

lemma fold_set_cell:
  assumes "distinct ks" "\<forall>k \<in> set ks. k < length t \<and> t ! k \<noteq> []"
  shows "length (fold (\<lambda>k t. set_cell t k 1 (JBool (b k))) ks t) = length t
       \<and> (\<forall>j. j \<notin> set ks \<longrightarrow> fold (\<lambda>k t. set_cell t k 1 (JBool (b k))) ks t ! j = t ! j)
       \<and> (\<forall>k \<in> set ks. \<forall>c.
            js_index (fold (\<lambda>k t. set_cell t k 1 (JBool (b k))) ks t ! k) c
              = (if c = 1 then JBool (b k) else js_index (t ! k) c))"
  using assms
proof (induction ks arbitrary: t)
  case Nil
  then show ?case by simp
next
  case (Cons k ks)
  let ?t = "set_cell t k 1 (JBool (b k))"
  let ?f = "fold (\<lambda>k t. set_cell t k 1 (JBool (b k))) ks ?t"
  from Cons.prems have k: "k < length t" "t ! k \<noteq> []" "k \<notin> set ks" "distinct ks"
    by auto
  have pre: "\<forall>q \<in> set ks. q < length ?t \<and> ?t ! q \<noteq> []"
  proof
    fix q
    assume q: "q \<in> set ks"
    with k(3) have "q \<noteq> k" by blast
    with q Cons.prems k(1) show "q < length ?t \<and> ?t ! q \<noteq> []"
      by (simp add: set_cell_length set_cell_other)
  qed
  note ih = Cons.IH [OF k(4) pre]
  have len: "length ?f = length t"
    using ih k(1) by (simp add: set_cell_length)
  have other: "\<forall>j. j \<notin> set (k # ks) \<longrightarrow> ?f ! j = t ! j"
    using ih k(1) by (simp add: set_cell_other)
  have here: "\<forall>q \<in> set (k # ks). \<forall>c.
            js_index (?f ! q) c = (if c = 1 then JBool (b q) else js_index (t ! q) c)"
  proof (intro ballI allI)
    fix q c
    assume q: "q \<in> set (k # ks)"
    show "js_index (?f ! q) c = (if c = 1 then JBool (b q) else js_index (t ! q) c)"
    proof (cases "q = k")
      case True
      with k(3) ih have "?f ! q = ?t ! k" by simp
      with True show ?thesis using set_cell_here [OF k(1,2)] by simp
    next
      case False
      with q have "q \<in> set ks" by simp
      with ih have "js_index (?f ! q) c = (if c = 1 then JBool (b q) else js_index (?t ! q) c)"
        by blast
      with False k(1) show ?thesis by (simp add: set_cell_other)
    qed
  qed
  show ?case using len other here by simp
qed

lemma rows_by_index: "map (\<lambda>k. g ((h # rows) ! k)) [1..<Suc (length rows)] = map g rows"
proof -
  have "map (\<lambda>k. g ((h # rows) ! k)) [1..<Suc (length rows)]
          = map (\<lambda>k. g ((h # rows) ! k)) (map Suc [0..<length rows])"
    by (simp add: map_Suc_upt)
  also have "\<dots> = map (\<lambda>k. g (rows ! k)) [0..<length rows]"
    by simp
  also have "\<dots> = map g (map ((!) rows) [0..<length rows])"
    by simp
  also have "\<dots> = map g rows"
    by (simp only: map_nth)
  finally show ?thesis .
qed

lemma loadAll_view:
  assumes "key_file_exists env" "\<not> get_throws env"
    and "sheet env = (label # d # ds) # rows"
    and "to_key d \<notin> to_key ` set ds" "to_key d \<noteq> ''__proto__''"
  shows "selectedDate (loadAll env s) = d"
    and "attendanceRecords (loadAll env s)
           = map (\<lambda>row. \<lparr>name = js_index row 0,
                           present = PBool (cell_is_true (js_index row 1))\<rparr>) rows"
proof -
  have get: "getAttendanceData env
               = (200, DataBody \<lparr>dates = d # ds,
                                 attendanceData = map (row_to_data (d # ds)) rows\<rparr>)"
    using assms(1-3) by (simp add: getAttendanceData_def getAttendanceDataFromSheet_def)
  have cell: "attendance_or_false (row_to_data (d # ds) row) d
                = PBool (cell_is_true (js_index row 1))"
    for row
    using forEach_date_at [of 0 "d # ds" row 0 Map.empty] assms(4,5)
    by (simp add: attendance_or_false_own row_to_data_def)
  have nm: "AttendanceData.name (row_to_data (d # ds) row) = js_index row 0" for row
    by (simp add: row_to_data_def)
  show "selectedDate (loadAll env s) = d"
    by (simp add: loadAll_def get fetchAttendanceData_def response_ok_def
        updateAttendanceRecordsForDate_def)
  show "attendanceRecords (loadAll env s)
           = map (\<lambda>row. \<lparr>name = js_index row 0,
                           present = PBool (cell_is_true (js_index row 1))\<rparr>) rows"
    by (simp add: loadAll_def get fetchAttendanceData_def response_ok_def
        updateAttendanceRecordsForDate_def cell nm)
qed

lemma save_sheet:
  assumes "key_file_exists env" "truthy (sheet_id env)" "\<not> get_throws env"
    "\<not> batch_throws env"
    and "sheet env = (label # d # ds) # rows"
    and "truthy d" "label \<noteq> d"
    and "distinct (map (\<lambda>row. js_index row 0) ((label # d # ds) # rows))"
    and "selectedDate s1 = d"
    and "attendanceRecords s1
           = map (\<lambda>row. \<lparr>name = js_index row 0,
                           present = PBool (cell_is_true (js_index row 1))\<rparr>) rows"
  shows "sheet (snd (save env s1))
           = fold (\<lambda>k t. set_cell t k 1
                     (JBool (cell_is_true (js_index (((label # d # ds) # rows) ! k) 1))))
               [1..<Suc (length rows)] ((label # d # ds) # rows)"
proof -
  let ?tbl = "(label # d # ds) # rows"
  let ?b = "\<lambda>k. cell_is_true (js_index (?tbl ! k) 1)"
  let ?ks = "[1..<Suc (length rows)]"
  have sent: "map (\<lambda>r. r\<lparr>present := json_present (present r)\<rparr>) (attendanceRecords s1)
                = attendanceRecords s1"
    by (simp add: assms(10))
  have view: "attendanceRecords s1
                = map (\<lambda>k. \<lparr>name = js_index (?tbl ! k) 0, present = PBool (?b k)\<rparr>) ?ks"
    using rows_by_index [of "\<lambda>row. \<lparr>name = js_index row 0,
                           present = PBool (cell_is_true (js_index row 1))\<rparr>" "label # d # ds" rows]
    by (simp only: assms(10))
  have ks: "\<forall>k \<in> set ?ks. k < length ?tbl"
    by (simp del: upt_Suc)
  have batch: "batchUpdateData ?tbl 66 (attendanceRecords s1)
                 = map (\<lambda>k. \<lparr>column_code = 66, row_number = k + 1, written = PBool (?b k)\<rparr>) ?ks"
    unfolding view by (rule batch_of_rows [OF assms(8) ks])
  have col: "findIndex (\<lambda>header. header = d) (label # d # ds) = Some 1"
    using assms(7) by simp
  show ?thesis
  proof (cases "rows = []")
    case True
    with assms(1-6,9) col batch show ?thesis
      by (simp add: save_def sent updateAttendance_def updateAttendanceInSheet_def Let_def)
  next
    case False
    then have ne: "map (\<lambda>k. \<lparr>column_code = 66, row_number = k + 1, written = PBool (?b k)\<rparr>) ?ks \<noteq> []"
      by (cases rows) simp_all
    from assms(1-6,9) col batch ne apply_batch_fold [of ?b ?ks ?tbl] show ?thesis
      by (simp add: save_def sent updateAttendance_def updateAttendanceInSheet_def Let_def
          del: upt_Suc)
  qed
qed

text \<open>
  Claim C3, as the code has it. Take a table whose first cells (the header's label
  included) are pairwise distinct, whose data rows all have a first cell, and whose first
  date header is truthy, is not \<^verbatim>\<open>__proto__\<close>, differs from the label and is not
  repeated as a key by a later header. A full load followed at once by a save keeps the number of rows, the header row
  and every cell outside the first date column, and puts into each person's cell of that
  column the boolean that the load read from it. A cell that already held a boolean keeps
  it; any other cell of that column is replaced by \<open>true\<close> or \<open>false\<close>.
\<close>

theorem load_save_normalises:
  assumes "key_file_exists env" "truthy (sheet_id env)" "\<not> get_throws env"
    "\<not> batch_throws env"
    and "sheet env = (label # d # ds) # rows"
    and "truthy d" "label \<noteq> d" "to_key d \<notin> to_key ` set ds"
    and "distinct (map (\<lambda>row. js_index row 0) ((label # d # ds) # rows))"
    and "\<forall>row \<in> set rows. row \<noteq> []"
    and "to_key d \<noteq> ''__proto__''"
  shows "length (sheet (snd (save env (loadAll env s)))) = Suc (length rows)
       \<and> sheet (snd (save env (loadAll env s))) ! 0 = label # d # ds
       \<and> (\<forall>r < length rows. \<forall>c.
            js_index (sheet (snd (save env (loadAll env s))) ! Suc r) c
              = (if c = 1 then JBool (cell_is_true (js_index (rows ! r) 1))
                 else js_index (rows ! r) c))
       \<and> (\<forall>r < length rows. \<forall>b. js_index (rows ! r) 1 = JBool b \<longrightarrow>
            js_index (sheet (snd (save env (loadAll env s))) ! Suc r) 1 = JBool b)"
proof -
  let ?tbl = "(label # d # ds) # rows"
  let ?b = "\<lambda>k. cell_is_true (js_index (?tbl ! k) 1)"
  let ?ks = "[1..<Suc (length rows)]"
  let ?out = "sheet (snd (save env (loadAll env s)))"
  have out: "?out = fold (\<lambda>k t. set_cell t k 1 (JBool (?b k))) ?ks ?tbl"
    by (rule save_sheet [OF assms(1-7,9)
          loadAll_view(1) [OF assms(1,3,5,8,11)] loadAll_view(2) [OF assms(1,3,5,8,11)]])
  have pre: "\<forall>k \<in> set ?ks. k < length ?tbl \<and> ?tbl ! k \<noteq> []"
    using assms(10) by (auto simp: nth_Cons' simp del: upt_Suc)
  have dist: "distinct ?ks" by simp
  note f = fold_set_cell [OF dist pre, of ?b, folded out]
  have len: "length ?out = Suc (length rows)"
    using f by simp
  have hd: "?out ! 0 = label # d # ds"
    using f by (simp del: upt_Suc)
  have cells: "\<forall>r < length rows. \<forall>c.
            js_index (?out ! Suc r) c
              = (if c = 1 then JBool (cell_is_true (js_index (rows ! r) 1))
                 else js_index (rows ! r) c)"
  proof (intro allI impI)
    fix r c
    assume "r < length rows"
    then have "Suc r \<in> set ?ks" by (simp del: upt_Suc)
    with f have "js_index (?out ! Suc r) c
                   = (if c = 1 then JBool (?b (Suc r)) else js_index (?tbl ! Suc r) c)"
      by blast
    then show "js_index (?out ! Suc r) c
              = (if c = 1 then JBool (cell_is_true (js_index (rows ! r) 1))
                 else js_index (rows ! r) c)"
      by simp
  qed
  have same: "\<forall>r < length rows. \<forall>b. js_index (rows ! r) 1 = JBool b \<longrightarrow>
            js_index (?out ! Suc r) 1 = JBool b"
    using cells by (auto simp: cell_is_true_def)
  show ?thesis using len hd cells same by blast
qed

theorem load_save_normalises_witness:
  "key_file_exists (env_of tidy_sheet) \<and> truthy (sheet_id (env_of tidy_sheet))
   \<and> \<not> get_throws (env_of tidy_sheet) \<and> \<not> batch_throws (env_of tidy_sheet)
   \<and> truthy (JStr ''7/20/2025'') \<and> JStr ''Name'' \<noteq> JStr ''7/20/2025''
   \<and> to_key (JStr ''7/20/2025'') \<noteq> ''__proto__''
   \<and> distinct (map (\<lambda>row. js_index row 0) tidy_sheet)
   \<and> list_all (\<lambda>row. row \<noteq> []) (tl tidy_sheet)
   \<and> sheet (snd (save (env_of tidy_sheet) (loadAll (env_of tidy_sheet) initial_state))) ! 0
       = [JStr ''Name'', JStr ''7/20/2025'', JStr ''7/13/2025'']
   \<and> js_index (sheet (snd (save (env_of tidy_sheet) (loadAll (env_of tidy_sheet) initial_state)))
         ! 1) 1 = JBool True
   \<and> js_index (sheet (snd (save (env_of tidy_sheet) (loadAll (env_of tidy_sheet) initial_state)))
         ! 1) 2 = JStr ''TRUE''
   \<and> js_index (sheet (snd (save (env_of tidy_sheet) (loadAll (env_of tidy_sheet) initial_state)))
         ! 2) 1 = JBool False"
proof -
  let ?rows = "[[JStr ''Smith, Jane'', JBool True, JStr ''TRUE''], [JStr ''Doe, John'', JBool False]]"
  let ?out = "sheet (snd (save (env_of tidy_sheet) (loadAll (env_of tidy_sheet) initial_state)))"
  have e: "key_file_exists (env_of tidy_sheet)" "truthy (sheet_id (env_of tidy_sheet))"
    "\<not> get_throws (env_of tidy_sheet)" "\<not> batch_throws (env_of tidy_sheet)"
    "sheet (env_of tidy_sheet) = (JStr ''Name'' # JStr ''7/20/2025'' # [JStr ''7/13/2025'']) # ?rows"
    by (simp_all add: env_of_def tidy_sheet_def)
  have d: "truthy (JStr ''7/20/2025'')" "JStr ''Name'' \<noteq> JStr ''7/20/2025''"
    "to_key (JStr ''7/20/2025'') \<notin> to_key ` set [JStr ''7/13/2025'']"
    by simp_all
  have n: "distinct (map (\<lambda>row. js_index row 0)
             ((JStr ''Name'' # JStr ''7/20/2025'' # [JStr ''7/13/2025'']) # ?rows))"
    "\<forall>row \<in> set ?rows. row \<noteq> []"
    by (simp_all add: js_index_def)
  have k: "to_key (JStr ''7/20/2025'') \<noteq> ''__proto__''"
    by simp
  note t = load_save_normalises [OF e d n k, of initial_state]
  have h: "?out ! 0 = [JStr ''Name'', JStr ''7/20/2025'', JStr ''7/13/2025'']"
    using t by simp
  from t have c: "\<forall>r < length ?rows. \<forall>c.
            js_index (?out ! Suc r) c
              = (if c = 1 then JBool (cell_is_true (js_index (?rows ! r) 1))
                 else js_index (?rows ! r) c)"
    by blast
  have c0: "js_index (?out ! 1) 1 = JBool True" "js_index (?out ! 1) 2 = JStr ''TRUE''"
    using c [rule_format, of 0] by (simp_all add: js_index_def cell_is_true_def)
  have "js_index (?out ! Suc 1) 1 = JBool False"
    using c [rule_format, of 1] by (simp add: js_index_def cell_is_true_def)
  then have c1: "js_index (?out ! 2) 1 = JBool False"
    by (simp only: Suc_1)
  have n': "distinct (map (\<lambda>row. js_index row 0) tidy_sheet)"
    "list_all (\<lambda>row. row \<noteq> []) (tl tidy_sheet)"
    by (simp_all add: tidy_sheet_def js_index_def)
  from e(1-4) d(1,2) k n' h c0 c1 show ?thesis
    by - (intro conjI; assumption)
qed

end
